theory Spec2Isabelle
  imports Complex_Main "HOL-Library.Word" "HOL-Library.AList" "HOL-Library.Sublist"
begin

section \<open>Python values used by the downloader\<close>

type_synonym byte = "8 word"

text \<open>Exceptions of the Python runtime and of the libraries the program calls.\<close>

datatype exn =
    FileNotFoundError string "string option"
  | ZeroDivisionError
  | KeyError string
  | TypeError
  | CalledProcessError int "string list"
  | ClientPayloadError
  | TimeoutError
  | OverflowError
  | OSError string

subsection \<open>\<^verbatim>\<open>str(i)\<close> and \<^verbatim>\<open>str.zfill\<close>\<close>

definition digit_char :: "nat \<Rightarrow> char" where
  "digit_char d = ''0123456789'' ! d"

function str_nat :: "nat \<Rightarrow> string" where
  "str_nat n = (if n < 10 then [digit_char n] else str_nat (n div 10) @ [digit_char (n mod 10)])"
  by pat_completeness auto
termination
  by (relation "measure (\<lambda>n. n)") auto

declare str_nat.simps [simp del]

definition str_int :: "int \<Rightarrow> string" where
  "str_int i = (if i < 0 then CHR ''-'' # str_nat (nat (- i)) else str_nat (nat i))"

text \<open>\<^verbatim>\<open>s.zfill(width)\<close> for a string of digits without sign.\<close>

definition zfill :: "nat \<Rightarrow> string \<Rightarrow> string" where
  "zfill width s = replicate (width - length s) CHR ''0'' @ s"

subsection \<open>Paths: \<^verbatim>\<open>str.rfind\<close>, \<^verbatim>\<open>os.path.splitext\<close>, \<^verbatim>\<open>pathlib.Path.stem\<close> (POSIX flavour)\<close>

definition rfind :: "char \<Rightarrow> string \<Rightarrow> int" where
  "rfind c s =
     (if c \<in> set s then int (length s) - 1 - int (length (takeWhile (\<lambda>x. x \<noteq> c) (rev s)))
      else - 1)"

text \<open>
  \<^verbatim>\<open>os.path.splitext(p)[0]\<close>: the extension starts at the last dot, when that dot lies
  after the last separator and some character between the separator and the dot is not
  a dot.
\<close>

definition splitext_root :: "string \<Rightarrow> string" where
  "splitext_root p =
     (let sepIndex = rfind CHR ''/'' p; dotIndex = rfind CHR ''.'' p in
      if dotIndex > sepIndex \<and>
         list_ex (\<lambda>c. c \<noteq> CHR ''.'') (drop (nat (sepIndex + 1)) (take (nat dotIndex) p))
      then take (nat dotIndex) p
      else p)"

fun split_on :: "char \<Rightarrow> string \<Rightarrow> string list" where
  "split_on c [] = [[]]"
| "split_on c (x # xs) =
     (if x = c then [] # split_on c xs
      else (case split_on c xs of [] \<Rightarrow> [[x]] | w # ws \<Rightarrow> (x # w) # ws))"

text \<open>The components of a path as pathlib keeps them: empty and \<^verbatim>\<open>.\<close> components are dropped.\<close>

definition path_parts :: "string \<Rightarrow> string list" where
  "path_parts p = filter (\<lambda>c. c \<noteq> [] \<and> c \<noteq> ''.'') (split_on CHR ''/'' p)"

definition path_name :: "string \<Rightarrow> string" where
  "path_name p = (if path_parts p = [] then [] else last (path_parts p))"

definition path_stem :: "string \<Rightarrow> string" where
  "path_stem p =
     (let name = path_name p; i = rfind CHR ''.'' name in
      if 0 < i \<and> i < int (length name) - 1 then take (nat i) name else name)"

section \<open>The file system\<close>

text \<open>
  \<^verbatim>\<open>posixpath.normpath\<close> on the components of a path: \<^verbatim>\<open>..\<close> takes back the
  component before it, stays at the root of an absolute path, and is kept at the front of
  a relative path that leaves the working directory. The flag \<open>initial_slashes\<close> says
  that the path is absolute.
\<close>

fun collapse :: "bool \<Rightarrow> string list \<Rightarrow> string list \<Rightarrow> string list" where
  "collapse initial_slashes new_comps [] = new_comps"
| "collapse initial_slashes new_comps (c # comps) =
     (if c \<noteq> ''..'' \<or> (\<not> initial_slashes \<and> new_comps = [])
         \<or> (new_comps \<noteq> [] \<and> last new_comps = ''..'')
      then collapse initial_slashes (new_comps @ [c]) comps
      else if new_comps \<noteq> [] then collapse initial_slashes (butlast new_comps) comps
      else collapse initial_slashes new_comps comps)"

text \<open>
  Regular files by normalised path (absolute or relative to the working directory, and the
  components left by \<^verbatim>\<open>normpath\<close>), each with its bytes. Two spellings of one path, such
  as \<^verbatim>\<open>./a\<close>, \<^verbatim>\<open>b/../a\<close> and \<^verbatim>\<open>a\<close>, name one file. Directories are implicit
  in the paths of the files below them: every directory that a path goes through is taken
  to exist, and there are no symbolic links. A path whose last component is empty,
  \<^verbatim>\<open>.\<close> or \<^verbatim>\<open>..\<close> names a directory and never a regular file. The place of the
  working directory in the tree is not part of the model: an absolute path and a relative
  path that leaves the working directory name files outside it.
\<close>

type_synonym npath = "bool \<times> string list"
type_synonym filesystem = "(npath \<times> byte list) list"

definition normpath :: "string \<Rightarrow> npath" where
  "normpath p = (take 1 p = ''/'', collapse (take 1 p = ''/'') [] (path_parts p))"

definition names_directory :: "string \<Rightarrow> bool" where
  "names_directory p =
     (let c = last (split_on CHR ''/'' p) in c = [] \<or> c = ''.'' \<or> c = ''..'')"

definition read_file :: "filesystem \<Rightarrow> string \<Rightarrow> byte list option" where
  "read_file fs p = (if names_directory p then None else map_of fs (normpath p))"

definition write_file :: "filesystem \<Rightarrow> string \<Rightarrow> byte list \<Rightarrow> filesystem" where
  "write_file fs p d = AList.update (normpath p) d fs"

definition os_path_getsize :: "filesystem \<Rightarrow> string \<Rightarrow> exn + int" where
  "os_path_getsize fs p =
     (case read_file fs p of
        None \<Rightarrow> Inl (FileNotFoundError p None)
      | Some d \<Rightarrow> Inr (int (length d)))"

definition os_remove :: "filesystem \<Rightarrow> string \<Rightarrow> exn + filesystem" where
  "os_remove fs p =
     (case read_file fs p of
        None \<Rightarrow> Inl (FileNotFoundError p None)
      | Some d \<Rightarrow> Inr (AList.delete (normpath p) fs))"

section \<open>Chunked splitter (lib/threads.py)\<close>

text \<open>
  What a splitter thread emits on its \<^verbatim>\<open>status\<close>, \<^verbatim>\<open>finished\<close> and
  \<^verbatim>\<open>progress\<close> signals, each in order of emission, and the file system it leaves.
\<close>

record split_out =
  status :: "bool list"
  finished :: "string list list"
  progress :: "string list"
  files :: filesystem

definition split_msg :: "string \<Rightarrow> nat \<Rightarrow> int \<Rightarrow> string" where
  "split_msg file_path i num_parts =
     ''Splitting '' @ file_path @ '': part '' @ str_nat (i + 1) @ ''/'' @ str_int num_parts
       @ '' complete''"

subsection \<open>\<^verbatim>\<open>SplitIsoThread.run\<close> (lines 104 to 129)\<close>

definition iso_part_name :: "string \<Rightarrow> nat \<Rightarrow> string" where
  "iso_part_name file_path i = splitext_root file_path @ ''.iso.'' @ str_nat i"

text \<open>
  The \<^verbatim>\<open>while True\<close> loop: \<open>f\<close> is what is left to read of the open file, \<open>i\<close> the
  part counter.
\<close>

function SplitIso_loop ::
  "string \<Rightarrow> int \<Rightarrow> nat \<Rightarrow> byte list \<Rightarrow> nat \<Rightarrow> string list \<Rightarrow> string list \<Rightarrow> filesystem
     \<Rightarrow> string list \<times> string list \<times> filesystem" where
  "SplitIso_loop file_path num_parts chunk_size f i split_files msgs fs =
     (if take chunk_size f = [] then (split_files, msgs, fs)
      else SplitIso_loop file_path num_parts chunk_size (drop chunk_size f) (i + 1)
             (split_files @ [iso_part_name file_path i])
             (msgs @ [split_msg file_path i num_parts])
             (write_file fs (iso_part_name file_path i) (take chunk_size f)))"
  by pat_completeness auto
termination
  by (relation "measure (\<lambda>(p, np, cs, f, r). length f)") auto

declare SplitIso_loop.simps [simp del]

definition SplitIsoThread_run :: "filesystem \<Rightarrow> string \<Rightarrow> exn + split_out" where
  "SplitIsoThread_run fs file_path =
     (case os_path_getsize fs file_path of
        Inl e \<Rightarrow> Inl e
      | Inr file_size \<Rightarrow>
          if file_size < 4294967295
          then Inr \<lparr>status = [False], finished = [[]], progress = [], files = fs\<rparr>
          else
            let chunk_size = 4294967295;
                num_parts = - ((- file_size) div chunk_size);
                (split_files, msgs, fs') =
                   SplitIso_loop file_path num_parts (nat chunk_size)
                     (the (read_file fs file_path)) 0 [] [] fs
            in Inr \<lparr>status = [True], finished = [split_files], progress = msgs, files = fs'\<rparr>)"

subsection \<open>\<^verbatim>\<open>SplitPkgThread.run\<close> (lines 72 to 92)\<close>

definition pkg_part_name :: "string \<Rightarrow> nat \<Rightarrow> string" where
  "pkg_part_name file_path i = path_stem file_path @ ''.pkg.666'' @ zfill 2 (str_nat i)"

function SplitPkg_loop ::
  "string \<Rightarrow> int \<Rightarrow> nat \<Rightarrow> byte list \<Rightarrow> nat \<Rightarrow> string list \<Rightarrow> filesystem
     \<Rightarrow> string list \<times> filesystem" where
  "SplitPkg_loop file_path num_parts chunk_size f i msgs fs =
     (if take chunk_size f = [] then (msgs, fs)
      else SplitPkg_loop file_path num_parts chunk_size (drop chunk_size f) (i + 1)
             (msgs @ [split_msg file_path i num_parts])
             (write_file fs (pkg_part_name file_path i) (take chunk_size f)))"
  by pat_completeness auto
termination
  by (relation "measure (\<lambda>(p, np, cs, f, r). length f)") auto

declare SplitPkg_loop.simps [simp del]

definition SplitPkgThread_run :: "filesystem \<Rightarrow> string \<Rightarrow> exn + split_out" where
  "SplitPkgThread_run fs file_path =
     (case os_path_getsize fs file_path of
        Inl e \<Rightarrow> Inl e
      | Inr file_size \<Rightarrow>
          if file_size < 4294967295
          then Inr \<lparr>status = [False], finished = [], progress = [], files = fs\<rparr>
          else
            let chunk_size = 4294967295;
                num_parts = - ((- file_size) div chunk_size);
                (msgs, fs') =
                   SplitPkg_loop file_path num_parts (nat chunk_size)
                     (the (read_file fs file_path)) 0 [] fs
            in (case os_remove fs' file_path of
                  Inl e \<Rightarrow> Inl e
                | Inr fs'' \<Rightarrow>
                    Inr \<lparr>status = [True], finished = [], progress = msgs, files = fs''\<rparr>))"

section \<open>Archive extractor (lib/runners.py)\<close>

subsection \<open>\<^verbatim>\<open>str.lower\<close> (ASCII), \<^verbatim>\<open>str.endswith\<close>, \<^verbatim>\<open>os.path.join\<close>\<close>

definition char_lower :: "char \<Rightarrow> char" where
  "char_lower c =
     (case map_of (zip ''ABCDEFGHIJKLMNOPQRSTUVWXYZ'' ''abcdefghijklmnopqrstuvwxyz'') c of
        None \<Rightarrow> c
      | Some l \<Rightarrow> l)"

definition lower :: "string \<Rightarrow> string" where
  "lower s = map char_lower s"

definition endswith :: "string \<Rightarrow> string \<Rightarrow> bool" where
  "endswith s suf = (length suf \<le> length s \<and> drop (length s - length suf) s = suf)"

definition os_path_join :: "string \<Rightarrow> string \<Rightarrow> string" where
  "os_path_join a b =
     (if take 1 b = ''/'' then b
      else if a = [] \<or> endswith a ''/'' then a @ b
      else a @ ''/'' @ b)"

subsection \<open>\<^verbatim>\<open>UnzipRunner\<close> (lines 41 to 76)\<close>

text \<open>An entry of \<^verbatim>\<open>zip_ref.infolist()\<close>: its name and its uncompressed size.\<close>

record zip_info =
  filename :: string
  file_size :: nat

text \<open>
  The signals of the runner. \<open>Progress_pct e t\<close> is
  \<^verbatim>\<open>progress_signal.emit(int((e / t) * 100))\<close> for a divisor \<open>t\<close> other than zero; the
  floating-point quotient is kept as its two operands.
\<close>

datatype unzip_event = Progress_pct nat nat | Unzip_finished "string list"

record unzip_runner =
  zip_path :: string
  output_path :: string
  extracted_files :: "string list"
  running :: bool
  emitted :: "unzip_event list"

definition UnzipRunner_init :: "string \<Rightarrow> string \<Rightarrow> unzip_runner" where
  "UnzipRunner_init zp op =
     \<lparr>zip_path = zp, output_path = op, extracted_files = [], running = True, emitted = []\<rparr>"

definition UnzipRunner_stop :: "unzip_runner \<Rightarrow> unzip_runner" where
  "UnzipRunner_stop r = r\<lparr>running := False\<rparr>"

text \<open>
  The \<^verbatim>\<open>for info in zip_ref.infolist()\<close> loop. Another thread may call \<^verbatim>\<open>stop()\<close> at
  any time; \<open>stop_before k\<close> says that such a call has landed when iteration \<open>k\<close> reads
  the flag (and not before an earlier read). The result is the exception that leaves the
  loop, if any, and the runner.
\<close>

fun UnzipRunner_loop ::
  "(nat \<Rightarrow> bool) \<Rightarrow> nat \<Rightarrow> nat \<Rightarrow> nat \<Rightarrow> zip_info list \<Rightarrow> unzip_runner
     \<Rightarrow> exn option \<times> unzip_runner" where
  "UnzipRunner_loop stop_before k total_size extracted_size [] r = (None, r)"
| "UnzipRunner_loop stop_before k total_size extracted_size (info # rest) r =
     (let r1 = (if stop_before k then UnzipRunner_stop r else r) in
      if \<not> running r1 then (None, r1)
      else
        let r2 = r1\<lparr>extracted_files :=
                      extracted_files r1 @ [os_path_join (output_path r1) (filename info)]\<rparr>;
            extracted_size' = extracted_size + file_size info
        in if total_size = 0 then (Some ZeroDivisionError, r2)
           else UnzipRunner_loop stop_before (k + 1) total_size extracted_size' rest
                  (r2\<lparr>emitted := emitted r2 @ [Progress_pct extracted_size' total_size]\<rparr>))"

text \<open>
  \<^verbatim>\<open>UnzipRunner.run\<close> on a readable archive whose \<^verbatim>\<open>infolist()\<close> is \<open>infolist\<close>;
  the files that \<^verbatim>\<open>zip_ref.extract\<close> writes are recorded by their paths only.
\<close>

definition UnzipRunner_run ::
  "(nat \<Rightarrow> bool) \<Rightarrow> zip_info list \<Rightarrow> unzip_runner \<Rightarrow> exn option \<times> unzip_runner" where
  "UnzipRunner_run stop_before infolist r =
     (if \<not> endswith (lower (zip_path r)) ''.zip''
      then (None, r\<lparr>emitted := emitted r @ [Unzip_finished []]\<rparr>)
      else
        (case UnzipRunner_loop stop_before 0 (sum_list (map file_size infolist)) 0 infolist r of
           (Some e, r') \<Rightarrow> (Some e, r')
         | (None, r') \<Rightarrow>
             (None, r'\<lparr>emitted := emitted r' @ [Unzip_finished (extracted_files r')]\<rparr>)))"

section \<open>Resumable downloader (lib/threads.py, lines 162 to 254)\<close>

text \<open>
  What the server answers to one GET. The header values are given as the integers the
  code parses out of them; the body is the successive results of
  \<^verbatim>\<open>response.content.read(8192)\<close>, after which the stream ends (\<open>None\<close>) or the read
  raises.
\<close>

record response =
  resp_status :: nat
  content_range_total :: "int option"
  content_length :: "int option"
  body :: "byte list list"
  body_end :: "exn option"

datatype get_result = Connect_error exn | Response response

text \<open>
  The network as the thread meets it: the answer to the GET of attempt \<open>i\<close> sent with the
  given \<^verbatim>\<open>Range: bytes=k-\<close> header (\<open>None\<close> when the header is absent), and the value
  of \<^verbatim>\<open>random.random()\<close> drawn in attempt \<open>i\<close>. That value is a double made of
  53 random bits \<open>k\<close>, namely \<open>k / 2^53\<close>; the bits are what is kept here.
\<close>

record network =
  get :: "nat \<Rightarrow> nat option \<Rightarrow> get_result"
  random :: "nat \<Rightarrow> 53 word"

text \<open>
  The delay \<^verbatim>\<open>2 ** i + random.random()\<close> for \<open>i < 1024\<close>, as the double it is. The
  exact sum \<open>2^i + k / 2^53\<close> lies in \<open>[2^i, 2^(i+1))\<close>, where neighbouring doubles are
  \<open>2^(i-52)\<close> apart, and is rounded to the nearest of them, to the one with the even
  significand in a tie: in units of \<open>2^(i-52)\<close> the sum is \<open>2^52 + k / 2^(i+1)\<close>.
\<close>

definition round_half_even :: "nat \<Rightarrow> nat \<Rightarrow> nat" where
  "round_half_even n d =
     (let q = n div d; r = n mod d
      in if 2 * r < d then q else if d < 2 * r then q + 1 else if even q then q else q + 1)"

definition backoff_delay :: "nat \<Rightarrow> 53 word \<Rightarrow> real" where
  "backoff_delay i k =
     real (2 ^ 52 + round_half_even (unat k) (2 ^ (i + 1))) * 2 ^ i / 2 ^ 52"

text \<open>
  The thread object with the destination's file system and what it has done: the Range
  header of each request sent, the delays slept, and the operands of each progress
  percentage \<^verbatim>\<open>int((total_downloaded / total_size) * 100)\<close>. The speed and ETA signals
  depend on the clock and carry no state; they are left out.
\<close>

record download_thread =
  dl_filename :: string
  retries :: nat
  existing_file_size :: nat
  total_downloaded :: nat
  dl_running :: bool
  range_header :: "nat option"
  disk :: filesystem
  requests :: "nat option list"
  sleeps :: "real list"
  dl_progress :: "(nat \<times> int) list"
  complete_signal :: nat

definition DownloadThread_init :: "filesystem \<Rightarrow> string \<Rightarrow> nat \<Rightarrow> download_thread" where
  "DownloadThread_init fs fname n =
     \<lparr>dl_filename = fname, retries = n, existing_file_size = 0, total_downloaded = 0,
      dl_running = True, range_header = None, disk = fs, requests = [], sleeps = [],
      dl_progress = [], complete_signal = 0\<rparr>"

definition DownloadThread_stop :: "download_thread \<Rightarrow> download_thread" where
  "DownloadThread_stop t = t\<lparr>dl_running := False\<rparr>"

text \<open>\<^verbatim>\<open>file.write(chunk)\<close> on a file opened with mode \<^verbatim>\<open>ab\<close>.\<close>

definition append_file :: "filesystem \<Rightarrow> string \<Rightarrow> byte list \<Rightarrow> filesystem" where
  "append_file fs p chunk =
     write_file fs p ((case read_file fs p of None \<Rightarrow> [] | Some d \<Rightarrow> d) @ chunk)"

text \<open>The \<^verbatim>\<open>while True\<close> loop over the chunks of one response.\<close>

fun read_body :: "int \<Rightarrow> byte list list \<Rightarrow> exn option \<Rightarrow> download_thread
                    \<Rightarrow> exn option \<times> download_thread" where
  "read_body total_size [] ending t = (ending, t)"
| "read_body total_size (chunk # rest) ending t =
     (if chunk = [] then (None, t)
      else
        let t1 = t\<lparr>disk := append_file (disk t) (dl_filename t) chunk,
                   total_downloaded := total_downloaded t + length chunk\<rparr>
        in if total_size = 0 then (Some ZeroDivisionError, t1)
           else read_body total_size rest ending
                  (t1\<lparr>dl_progress := dl_progress t1 @ [(total_downloaded t1, total_size)]\<rparr>))"

text \<open>The body of the \<^verbatim>\<open>try\<close> block in attempt \<open>i\<close>.\<close>

definition attempt :: "network \<Rightarrow> nat \<Rightarrow> download_thread \<Rightarrow> exn option \<times> download_thread" where
  "attempt net i t =
     (let t1 = (case read_file (disk t) (dl_filename t) of
                  None \<Rightarrow> t
                | Some d \<Rightarrow> t\<lparr>existing_file_size := length d, range_header := Some (length d)\<rparr>);
          t2 = t1\<lparr>requests := requests t1 @ [range_header t1]\<rparr>
      in case get net i (range_header t1) of
           Connect_error e \<Rightarrow> (Some e, t2)
         | Response r \<Rightarrow>
             if resp_status r \<noteq> 200 \<and> resp_status r \<noteq> 206 then (Some ClientPayloadError, t2)
             else
               (case (case content_range_total r of
                        Some n \<Rightarrow> Some n
                      | None \<Rightarrow> content_length r) of
                  None \<Rightarrow> (Some TypeError, t2)
                | Some total_size \<Rightarrow>
                    read_body total_size (body r) (body_end r)
                      (t2\<lparr>disk := append_file (disk t2) (dl_filename t2) [],
                          total_downloaded := existing_file_size t2\<rparr>)))"

text \<open>
  \<^verbatim>\<open>for i in range(self.retries)\<close>, from attempt \<open>i\<close> on; \<open>n\<close> is
  \<^verbatim>\<open>self.retries\<close>, which nothing assigns after the constructor. In a handler the
  delay is computed before it is slept: from \<open>i = 1024\<close> on the integer \<^verbatim>\<open>2 ** i\<close> no
  longer converts to a double and the sum raises \<^verbatim>\<open>OverflowError\<close>, which leaves the
  handler and the loop.
\<close>

function download_from ::
  "network \<Rightarrow> nat \<Rightarrow> nat \<Rightarrow> download_thread \<Rightarrow> exn option \<times> download_thread" where
  "download_from net n i t =
     (if n \<le> i then (None, t)
      else
        (case attempt net i t of
           (None, t') \<Rightarrow> (None, t')
         | (Some e, t') \<Rightarrow>
             if e = ClientPayloadError \<or> e = TimeoutError
             then
               if 1024 \<le> i then (Some OverflowError, t')
               else
                 let t'' = t'\<lparr>sleeps := sleeps t' @ [backoff_delay i (random net i)]\<rparr>
                 in if int i = int n - 1 then (Some e, t'')
                    else download_from net n (i + 1) t''
             else (Some e, t')))"
  by pat_completeness auto
termination
  by (relation "measure (\<lambda>(net, n, i, t). n - i)") auto

declare download_from.simps [simp del]

definition download :: "network \<Rightarrow> download_thread \<Rightarrow> exn option \<times> download_thread" where
  "download net t = download_from net (retries t) 0 t"

definition DownloadThread_run :: "network \<Rightarrow> download_thread \<Rightarrow> exn option \<times> download_thread" where
  "DownloadThread_run net t =
     (case download net t of
        (Some e, t') \<Rightarrow> (Some e, t')
      | (None, t') \<Rightarrow> (None, t'\<lparr>complete_signal := complete_signal t' + 1\<rparr>))"

subsection \<open>\<^verbatim>\<open>GUIDownloader.downloadhelper\<close> (myrientDownloaderGUI.py, lines 393 to 445)\<close>






section \<open>Filesystem operation executor (lib/threads.py, lines 132 to 159)\<close>

text \<open>An operation is a dict from strings to strings, as the pipelines build it.\<close>

type_synonym operation = "string \<rightharpoonup> string"

text \<open>
  The calls the executor makes into \<^verbatim>\<open>os\<close> and \<^verbatim>\<open>shutil\<close>, over a storage of any
  kind: each returns the exception it raises, if any, and the storage it leaves.
\<close>

record 's os_calls =
  os_rename_call :: "string \<Rightarrow> string \<Rightarrow> 's \<Rightarrow> exn option \<times> 's"
  shutil_move_call :: "string \<Rightarrow> string \<Rightarrow> 's \<Rightarrow> exn option \<times> 's"
  os_path_isdir_call :: "string \<Rightarrow> 's \<Rightarrow> bool"
  shutil_rmtree_call :: "string \<Rightarrow> 's \<Rightarrow> exn option \<times> 's"
  os_remove_call :: "string \<Rightarrow> 's \<Rightarrow> exn option \<times> 's"

text \<open>
  The signals of the executor: the message that announces an operation, the
  acknowledgment \<^verbatim>\<open>Performed {type} operation\<close>, the report
  \<^verbatim>\<open>Error during {type}: {e}\<close>, and \<^verbatim>\<open>finished_signal\<close>.
\<close>

datatype fo_event =
    Announce string
  | Performed string
  | Error_during string exn
  | Finished_signal

text \<open>The statements of the \<^verbatim>\<open>try\<close> block for one operation.\<close>

definition operation_body ::
  "'s os_calls \<Rightarrow> operation \<Rightarrow> 's \<Rightarrow> exn option \<times> fo_event list \<times> 's" where
  "operation_body os operation s =
     (case operation ''type'' of
        None \<Rightarrow> (Some (KeyError ''type''), [], s)
      | Some ty \<Rightarrow>
          if ty = ''rename'' then
            (case operation ''src'' of
               None \<Rightarrow> (Some (KeyError ''src''), [], s)
             | Some src \<Rightarrow>
                 (case operation ''dst'' of
                    None \<Rightarrow> (Some (KeyError ''dst''), [], s)
                  | Some dst \<Rightarrow>
                      (case os_rename_call os src dst s of
                         (Some e, s') \<Rightarrow>
                           (Some e, [Announce (''Renaming '' @ src @ '' to '' @ dst)], s')
                       | (None, s') \<Rightarrow>
                           (None, [Announce (''Renaming '' @ src @ '' to '' @ dst),
                                   Performed ty], s'))))
          else if ty = ''move'' then
            (case operation ''src'' of
               None \<Rightarrow> (Some (KeyError ''src''), [], s)
             | Some src \<Rightarrow>
                 (case operation ''dst'' of
                    None \<Rightarrow> (Some (KeyError ''dst''), [], s)
                  | Some dst \<Rightarrow>
                      (case shutil_move_call os src dst s of
                         (Some e, s') \<Rightarrow>
                           (Some e, [Announce (''Moving '' @ src @ '' to '' @ dst)], s')
                       | (None, s') \<Rightarrow>
                           (None, [Announce (''Moving '' @ src @ '' to '' @ dst),
                                   Performed ty], s'))))
          else if ty = ''remove'' then
            (case operation ''src'' of
               None \<Rightarrow> (Some (KeyError ''src''), [], s)
             | Some src \<Rightarrow>
                 (case (if os_path_isdir_call os src s then shutil_rmtree_call os src s
                        else os_remove_call os src s) of
                    (Some e, s') \<Rightarrow> (Some e, [Announce (''Removing '' @ src)], s')
                  | (None, s') \<Rightarrow> (None, [Announce (''Removing '' @ src), Performed ty], s')))
          else (None, [Performed ty], s))"

text \<open>
  One turn of the loop: the \<^verbatim>\<open>try\<close> block and its handler, which reads
  \<^verbatim>\<open>operation['type']\<close> again.
\<close>

definition run_operation ::
  "'s os_calls \<Rightarrow> operation \<Rightarrow> 's \<Rightarrow> exn option \<times> fo_event list \<times> 's" where
  "run_operation os operation s =
     (case operation_body os operation s of
        (None, evs, s') \<Rightarrow> (None, evs, s')
      | (Some e, evs, s') \<Rightarrow>
          (case operation ''type'' of
             None \<Rightarrow> (Some (KeyError ''type''), evs, s')
           | Some ty \<Rightarrow> (None, evs @ [Error_during ty e], s')))"

text \<open>\<^verbatim>\<open>FileOperationsThread.run\<close>.\<close>

fun FileOperationsThread_run ::
  "'s os_calls \<Rightarrow> operation list \<Rightarrow> 's \<Rightarrow> exn option \<times> fo_event list \<times> 's" where
  "FileOperationsThread_run os [] s = (None, [Finished_signal], s)"
| "FileOperationsThread_run os (operation # rest) s =
     (case run_operation os operation s of
        (Some e, evs, s') \<Rightarrow> (Some e, evs, s')
      | (None, evs, s') \<Rightarrow>
          (case FileOperationsThread_run os rest s' of
             (r, evs', s'') \<Rightarrow> (r, evs @ evs', s'')))"

text \<open>The text of each signal, and \<^verbatim>\<open>str(e)\<close> for the exceptions of the model.\<close>

definition str_exn :: "exn \<Rightarrow> string" where
  "str_exn e =
     (case e of
        FileNotFoundError p q \<Rightarrow>
          ''[Errno 2] No such file or directory: '' @ [CHR 0x27] @ p @ [CHR 0x27]
            @ (case q of None \<Rightarrow> [] | Some d \<Rightarrow> '' -> '' @ [CHR 0x27] @ d @ [CHR 0x27])
      | ZeroDivisionError \<Rightarrow> ''division by zero''
      | KeyError k \<Rightarrow> [CHR 0x27] @ k @ [CHR 0x27]
      | TypeError \<Rightarrow> []
      | CalledProcessError rc cmd \<Rightarrow>
          ''Command returned non-zero exit status '' @ str_int rc @ ''.''
      | ClientPayloadError \<Rightarrow> []
      | TimeoutError \<Rightarrow> []
      | OverflowError \<Rightarrow> ''int too large to convert to float''
      | OSError m \<Rightarrow> m)"

definition render :: "fo_event \<Rightarrow> string option" where
  "render ev =
     (case ev of
        Announce m \<Rightarrow> Some m
      | Performed ty \<Rightarrow> Some (''Performed '' @ ty @ '' operation'')
      | Error_during ty e \<Rightarrow> Some (''Error during '' @ ty @ '': '' @ str_exn e)
      | Finished_signal \<Rightarrow> None)"

section \<open>Queue and dispatcher (myrientDownloaderGUI.py)\<close>

text \<open>
  An entry of the queue widget (its text and its \<^verbatim>\<open>Qt.UserRole\<close> data, the system
  index) and a selected cell of a result table (its column and its data, the full file
  name).
\<close>

record queue_item =
  item_text :: string
  item_data :: int

record table_item =
  item_column :: nat
  full_filename :: string

text \<open>
  The part of the window the queue code touches: the queue widget, the contents of
  \<^verbatim>\<open>queue.txt\<close> (\<open>None\<close> while the file does not exist), the two position counters
  and whether the buttons are enabled.
\<close>

record gui =
  queue_list :: "queue_item list"
  queue_txt :: "(string \<times> int) list option"
  processed_items :: nat
  total_items :: nat
  clickables_enabled :: bool

text \<open>
  \<^verbatim>\<open>pickle.dump([(item.text(), item.data(Qt.UserRole)) for every row], file)\<close> on
  \<^verbatim>\<open>queue.txt\<close>, as three methods write it out.
\<close>

definition dump_queue :: "gui \<Rightarrow> gui" where
  "dump_queue g = g\<lparr>queue_txt := Some (map (\<lambda>it. (item_text it, item_data it)) (queue_list g))\<rparr>"

text \<open>\<^verbatim>\<open>add_to_queue\<close> (lines 861 to 878).\<close>

definition add_to_queue :: "gui \<Rightarrow> table_item list \<Rightarrow> int \<Rightarrow> gui" where
  "add_to_queue g selected_items current_system_index =
     fold (\<lambda>item g.
             if item_column item = 0 then
               (let duplicate =
                      list_ex (\<lambda>queue_item. item_text queue_item = full_filename item \<and>
                                             item_data queue_item = current_system_index)
                        (queue_list g)
                in if \<not> duplicate
                   then g\<lparr>queue_list := queue_list g @
                            [\<lparr>item_text = full_filename item, item_data = current_system_index\<rparr>]\<rparr>
                   else g)
             else g)
       selected_items g"




text \<open>The capability flags of a system of \<^verbatim>\<open>systems.yaml\<close>, read with \<^verbatim>\<open>dict.get\<close>.\<close>

record system_config =
  requires_decryption :: bool
  requires_pkg_handling :: bool
  has_multiple_extensions :: bool

datatype pipeline = Ps3_iso | Psn_pkg | Multi_file | Plain

text \<open>
  What \<^verbatim>\<open>process_next_item\<close> (lines 352 to 391) ends in: a pipeline started for the
  head item, with its text and queue position, or nothing to do.
\<close>

datatype dispatch = Start pipeline string string | Idle

function process_next_item :: "(int \<rightharpoonup> system_config) \<Rightarrow> gui \<Rightarrow> gui \<times> dispatch" where
  "process_next_item systems_data g =
     (case queue_list g of
        item # rest \<Rightarrow>
          (let g1 = (if processed_items g = 0 then g\<lparr>total_items := length (queue_list g)\<rparr>
                     else g);
               g2 = g1\<lparr>processed_items := processed_items g1 + 1\<rparr>
           in case systems_data (item_data item) of
                Some system \<Rightarrow>
                  (let queue_position =
                         str_nat (processed_items g2) @ ''/'' @ str_nat (total_items g2)
                   in if requires_decryption system
                      then (g2, Start Ps3_iso (item_text item) queue_position)
                      else if requires_pkg_handling system
                      then (g2, Start Psn_pkg (item_text item) queue_position)
                      else if has_multiple_extensions system
                      then (g2, Start Multi_file (item_text item) queue_position)
                      else (g2, Start Plain (item_text item) queue_position))
              | None \<Rightarrow> process_next_item systems_data (g2\<lparr>queue_list := rest\<rparr>))
      | [] \<Rightarrow>
          (dump_queue (g\<lparr>processed_items := 0, total_items := 0\<rparr>)
             \<lparr>clickables_enabled := True\<rparr>, Idle))"
  by pat_completeness auto
termination
  by (relation "measure (\<lambda>(sd, g). length (queue_list g))") auto

declare process_next_item.simps [simp del]


section \<open>PS3 pipeline from the extracted files to the decrypted image (lines 519 to 604)\<close>

text \<open>
  What the pipeline reads from the window, the platform and the disk, and how the work it
  hands to other threads and processes ends: the checkboxes, whether the key file is on
  disk when \<^verbatim>\<open>handle_ps3_files\<close> and when \<^verbatim>\<open>after_dkey_download\<close> look, how the
  download thread for the key archive and its extraction end, the text of the key file,
  the exit code of the decryption tool, and the files on disk when the tool has ended,
  each by its path as the pipeline spells it.
\<close>

record ps3_env =
  decrypt_checked :: bool
  keep_dkey_checked :: bool
  keep_enc_checked :: bool
  dkey_isfile_before :: bool
  dkey_download_end :: "exn option"
  dkey_extract_end :: "exn option"
  dkey_isfile_after :: bool
  dkey_text :: string
  is_windows :: bool
  cpu_count :: nat
  ps3dec_binary :: string
  returncode :: int
  on_disk :: "string list"

text \<open>
  How a stage ends: with \<^verbatim>\<open>queue_list.takeItem(0); process_next_item()\<close>; with the call
  of \<^verbatim>\<open>after_decryption\<close> on an image, where the splitting and finalising stages take
  over; with no thread started and no callback registered; or with an exception that
  nothing handles.
\<close>

datatype stage_end =
    Next_item
  | After_decryption "string option"
  | Stalled
  | Unhandled exn

text \<open>\<^verbatim>\<open>CommandRunner.run\<close>: the finished signal is emitted only for exit code 0.\<close>

definition CommandRunner_run :: "ps3_env \<Rightarrow> string list \<Rightarrow> exn + unit" where
  "CommandRunner_run env command =
     (if returncode env \<noteq> 0 then Inl (CalledProcessError (returncode env) command)
      else Inr ())"

text \<open>
  \<^verbatim>\<open>decryption_finished\<close> (lines 576 to 604). With the encrypted image kept and not on
  Windows, the final name is the name of the decrypted image: the image is removed as
  "any existing file with the same name" and the renaming raises. The output directory
  of the current system is taken to be configured.
\<close>

definition decryption_finished :: "ps3_env \<Rightarrow> string \<Rightarrow> string \<Rightarrow> stage_end" where
  "decryption_finished env iso_file base_name =
     (let decrypted_iso =
            (if is_windows env
             then os_path_join ''processing'' (base_name @ ''.iso_decrypted.iso'')
             else os_path_join ''processing'' (base_name @ ''.iso.dec''))
      in if decrypted_iso \<in> set (on_disk env) then
           (case (if \<not> keep_enc_checked env
                  then (if iso_file \<in> set (on_disk env)
                        then Inr (removeAll iso_file (on_disk env))
                        else Inl (FileNotFoundError iso_file None))
                  else Inr (on_disk env)) of
              Inl e \<Rightarrow> Unhandled e
            | Inr disk1 \<Rightarrow>
                (let final_iso =
                       (if keep_enc_checked env
                        then os_path_join ''processing'' (base_name @ ''.iso.dec'')
                        else os_path_join ''processing'' (base_name @ ''.iso''));
                     disk2 = (if final_iso \<in> set disk1 then removeAll final_iso disk1 else disk1)
                 in if decrypted_iso \<in> set disk2 then After_decryption (Some final_iso)
                    else Unhandled (FileNotFoundError decrypted_iso (Some final_iso))))
         else Next_item)"

definition decrypt_ps3_iso :: "ps3_env \<Rightarrow> string \<Rightarrow> string \<Rightarrow> string \<Rightarrow> stage_end" where
  "decrypt_ps3_iso env iso_file dkey_file base_name =
     (let key = take 32 (dkey_text env);
          command =
            (if is_windows env
             then [ps3dec_binary env, ''--iso'', iso_file, ''--dk'', key, ''--tc'',
                   str_nat (cpu_count env div 2)]
             else [ps3dec_binary env, ''d'', ''key'', key, iso_file])
      in case CommandRunner_run env command of
           Inl e \<Rightarrow> Unhandled e
         | Inr u \<Rightarrow> decryption_finished env iso_file base_name)"

definition after_dkey_download ::
  "ps3_env \<Rightarrow> string option \<Rightarrow> string option \<Rightarrow> string \<Rightarrow> stage_end" where
  "after_dkey_download env dkey_zip_path iso_file base_name =
     (case (if dkey_zip_path \<noteq> None then dkey_extract_end env else None) of
        Some e \<Rightarrow> Unhandled e
      | None \<Rightarrow>
          (let dkey_file_path = os_path_join ''processing'' (base_name @ ''.dkey'');
               dkey_file = (if dkey_isfile_after env then Some dkey_file_path else None)
           in case (iso_file, dkey_file) of
                (Some iso_path, Some dkey_path) \<Rightarrow>
                  if decrypt_checked env then decrypt_ps3_iso env iso_path dkey_path base_name
                  else After_decryption iso_file
              | _ \<Rightarrow> After_decryption iso_file))"

definition handle_ps3_files :: "ps3_env \<Rightarrow> string list \<Rightarrow> string \<Rightarrow> stage_end" where
  "handle_ps3_files env extracted base_name =
     (let iso_file =
            fold (\<lambda>file iso_file. if endswith file ''.iso'' then Some file else iso_file)
              extracted None
      in if \<not> dkey_isfile_before env then
           (if decrypt_checked env \<or> keep_dkey_checked env then
              (let dkey_zip_path = os_path_join ''processing'' (base_name @ ''_dkey.zip'')
               in case dkey_download_end env of
                    Some e \<Rightarrow> Unhandled e
                  | None \<Rightarrow> after_dkey_download env (Some dkey_zip_path) iso_file base_name)
            else Stalled)
         else after_dkey_download env None iso_file base_name)"

text \<open>
  The dispatcher over one step of the PS3 pipeline: the head item leaves the queue and the
  next one is dispatched only when the stage ends with \<^verbatim>\<open>process_next_item()\<close>.
\<close>

definition ps3_item_step ::
  "(int \<rightharpoonup> system_config) \<Rightarrow> ps3_env \<Rightarrow> string list \<Rightarrow> string \<Rightarrow> gui
     \<Rightarrow> stage_end \<times> gui \<times> dispatch" where
  "ps3_item_step systems_data env extracted base_name g =
     (case handle_ps3_files env extracted base_name of
        Next_item \<Rightarrow>
          (case process_next_item systems_data (g\<lparr>queue_list := tl (queue_list g)\<rparr>) of
             (g', d) \<Rightarrow> (Next_item, g', d))
      | other \<Rightarrow> (other, g, Idle))"

section \<open>Searching for the split parts of a package (myrientDownloaderGUI.py, lines 701 to 706)\<close>





section \<open>Notions used to state the properties\<close>

text \<open>
  A byte sequence cut into pieces of \<open>n\<close> bytes, the last one possibly shorter, and the
  file system after writing the pieces under numbered names.
\<close>

function chunks :: "nat \<Rightarrow> 'a list \<Rightarrow> 'a list list" where
  "chunks n xs = (if take n xs = [] then [] else take n xs # chunks n (drop n xs))"
  by pat_completeness auto
termination
  by (relation "measure (\<lambda>(n, xs). length xs)") auto

declare chunks.simps [simp del]



text \<open>The errors the retry loop catches.\<close>

definition transient :: "exn \<Rightarrow> bool" where
  "transient e = (e = ClientPayloadError \<or> e = TimeoutError)"



text \<open>
  The acknowledgments among the signals: the operation type, and the exception reported
  for it (\<open>None\<close> for \<^verbatim>\<open>Performed\<close>).
\<close>

fun acks :: "fo_event list \<Rightarrow> (string \<times> exn option) list" where
  "acks [] = []"
| "acks (Performed ty # evs) = (ty, None) # acks evs"
| "acks (Error_during ty e # evs) = (ty, Some e) # acks evs"
| "acks (ev # evs) = acks evs"

subsection \<open>The executor as the specification describes it\<close>

text \<open>
  An operation is a rename or a move from a source to a destination, or the removal of a
  source. The pipelines build the dict of each with the keys \<^verbatim>\<open>type\<close>, \<^verbatim>\<open>src\<close> and
  \<^verbatim>\<open>dst\<close>.
\<close>

datatype op_spec = Rename string string | Move string string | Remove string

fun op_dict :: "op_spec \<Rightarrow> operation" where
  "op_dict (Rename src dst) = [''type'' \<mapsto> ''rename'', ''src'' \<mapsto> src, ''dst'' \<mapsto> dst]"
| "op_dict (Move src dst) = [''type'' \<mapsto> ''move'', ''src'' \<mapsto> src, ''dst'' \<mapsto> dst]"
| "op_dict (Remove src) = [''type'' \<mapsto> ''remove'', ''src'' \<mapsto> src]"

fun op_type :: "op_spec \<Rightarrow> string" where
  "op_type (Rename src dst) = ''rename''"
| "op_type (Move src dst) = ''move''"
| "op_type (Remove src) = ''remove''"

text \<open>
  The filesystem action of an operation: rename and move perform the corresponding call,
  remove deletes a file or, if the path is a directory, deletes it recursively.
\<close>

fun action :: "'s os_calls \<Rightarrow> op_spec \<Rightarrow> 's \<Rightarrow> exn option \<times> 's" where
  "action os (Rename src dst) s = os_rename_call os src dst s"
| "action os (Move src dst) s = shutil_move_call os src dst s"
| "action os (Remove src) s =
     (if os_path_isdir_call os src s then shutil_rmtree_call os src s
      else os_remove_call os src s)"

text \<open>
  Every action is performed in list order, each on the storage the one before left,
  whether that one failed or not: the storage at the end, and for each operation its type
  and the exception of its action, if any.
\<close>

fun storage_after :: "'s os_calls \<Rightarrow> op_spec list \<Rightarrow> 's \<Rightarrow> 's" where
  "storage_after os [] s = s"
| "storage_after os (sp # sps) s = storage_after os sps (snd (action os sp s))"

fun reports :: "'s os_calls \<Rightarrow> op_spec list \<Rightarrow> 's \<Rightarrow> (string \<times> exn option) list" where
  "reports os [] s = []"
| "reports os (sp # sps) s =
     (op_type sp, fst (action os sp s)) # reports os sps (snd (action os sp s))"

subsection \<open>Example inputs\<close>







text \<open>A server that delivers two bytes in two chunks whatever the request.\<close>

definition two_chunks :: network where
  "two_chunks =
     \<lparr>get = (\<lambda>i r. Response \<lparr>resp_status = 200, content_range_total = None,
               content_length = Some 2, body = [[1], [2]], body_end = None\<rparr>),
      random = (\<lambda>i. 0)\<rparr>"

text \<open>
  The calls over the file system of this theory, where no path is a directory. A failed
  \<^verbatim>\<open>os.rename\<close> names both paths; a failed \<^verbatim>\<open>shutil.move\<close> ends in the copy it
  falls back to, whose exception names the source.
\<close>

definition flat_rename :: "string \<Rightarrow> string \<Rightarrow> filesystem \<Rightarrow> exn option \<times> filesystem" where
  "flat_rename src dst fs =
     (case read_file fs src of
        None \<Rightarrow> (Some (FileNotFoundError src (Some dst)), fs)
      | Some d \<Rightarrow> (None, write_file (AList.delete (normpath src) fs) dst d))"

definition flat_move :: "string \<Rightarrow> string \<Rightarrow> filesystem \<Rightarrow> exn option \<times> filesystem" where
  "flat_move src dst fs =
     (case read_file fs src of
        None \<Rightarrow> (Some (FileNotFoundError src None), fs)
      | Some d \<Rightarrow> (None, write_file (AList.delete (normpath src) fs) dst d))"

definition flat_remove :: "string \<Rightarrow> filesystem \<Rightarrow> exn option \<times> filesystem" where
  "flat_remove src fs =
     (case os_remove fs src of Inl e \<Rightarrow> (Some e, fs) | Inr fs' \<Rightarrow> (None, fs'))"

definition flat_os :: "filesystem os_calls" where
  "flat_os =
     \<lparr>os_rename_call = flat_rename, shutil_move_call = flat_move,
      os_path_isdir_call = (\<lambda>p fs. False), shutil_rmtree_call = flat_remove,
      os_remove_call = flat_remove\<rparr>"





text \<open>
  A catalogue that requires decryption, two of its titles queued with the first one in
  work, and a run in which the key file is on disk and decryption is requested; the tool's
  exit code and the presence of its output vary.
\<close>

definition ps3_system :: "int \<rightharpoonup> system_config" where
  "ps3_system =
     [0 \<mapsto> \<lparr>requires_decryption = True, requires_pkg_handling = False,
             has_multiple_extensions = False\<rparr>]"

definition two_in_work :: gui where
  "two_in_work =
     \<lparr>queue_list = [\<lparr>item_text = ''game.zip'', item_data = 0\<rparr>,
                    \<lparr>item_text = ''other.zip'', item_data = 0\<rparr>],
      queue_txt = None, processed_items = 1, total_items = 2, clickables_enabled = False\<rparr>"

definition decrypting :: "int \<Rightarrow> bool \<Rightarrow> ps3_env" where
  "decrypting rc present =
     \<lparr>decrypt_checked = True, keep_dkey_checked = False, keep_enc_checked = False,
      dkey_isfile_before = True, dkey_download_end = None, dkey_extract_end = None,
      dkey_isfile_after = True, dkey_text = ''0123456789ABCDEF0123456789ABCDEF'',
      is_windows = False, cpu_count = 8, ps3dec_binary = ''ps3dec'',
      returncode = rc,
      on_disk = (if present then [''processing/game.iso'', ''processing/game.iso.dec'']
                 else [''processing/game.iso''])\<rparr>"

section \<open>Verification\<close>


































lemma chunks_Nil: "take n xs = [] \<Longrightarrow> chunks n xs = []"
  by (subst chunks.simps) simp

lemma chunks_Cons: "take n xs \<noteq> [] \<Longrightarrow> chunks n xs = take n xs # chunks n (drop n xs)"
  by (subst chunks.simps) simp




lemma chunks_nonempty: "c \<in> set (chunks n xs) \<Longrightarrow> c \<noteq> [] \<and> length c \<le> n"
proof (induction n xs rule: chunks.induct)
  case (1 n xs)
  show ?case
  proof (cases "take n xs = []")
    case True
    with 1(2) show ?thesis by (simp add: chunks_Nil)
  next
    case False
    with 1 show ?thesis by (auto simp: chunks_Cons)
  qed
qed
































lemma game_iso_norm: "normpath ''game.iso'' = (False, [''game.iso''])"
  by (simp add: normpath_def path_parts_def)




text \<open>
  C3 (as the code has it): below the threshold neither splitter writes a part or changes the
  file system, and both emit status False; the ISO splitter's finished signal carries the
  empty list, the PKG splitter emits no list of paths.
\<close>

theorem split_below_threshold:
  assumes "read_file fs file_path = Some d" and "length d < 4294967295"
  shows "SplitIsoThread_run fs file_path
           = Inr \<lparr>status = [False], finished = [[]], progress = [], files = fs\<rparr> \<and>
         SplitPkgThread_run fs file_path
           = Inr \<lparr>status = [False], finished = [], progress = [], files = fs\<rparr>"
  using assms by (simp add: SplitIsoThread_run_def SplitPkgThread_run_def os_path_getsize_def)

theorem split_below_threshold_witness:
  "read_file [(normpath ''game.iso'', [1, 2, 3])] ''game.iso'' = Some [1, 2, 3] \<and>
   length [1, 2, 3 :: byte] < 4294967295 \<and>
   SplitIsoThread_run [(normpath ''game.iso'', [1, 2, 3])] ''game.iso''
     = Inr \<lparr>status = [False], finished = [[]], progress = [],
            files = [(normpath ''game.iso'', [1, 2, 3])]\<rparr> \<and>
   SplitPkgThread_run [(normpath ''game.iso'', [1, 2, 3])] ''game.iso''
     = Inr \<lparr>status = [False], finished = [], progress = [],
            files = [(normpath ''game.iso'', [1, 2, 3])]\<rparr>"
proof -
  have h1: "read_file [(normpath ''game.iso'', [1, 2, 3])] ''game.iso'' = Some [1, 2, 3]"
    by (simp add: read_file_def names_directory_def Let_def)
  have h2: "length [1, 2, 3 :: byte] < 4294967295" by simp
  from split_below_threshold [OF h1 h2] h1 h2 show ?thesis by blast
qed

theorem split_below_threshold_returns_no_path:
  "map_sum id finished (SplitIsoThread_run [(normpath ''game.iso'', [1, 2, 3])] ''game.iso'')
     = Inr [[]] \<and>
   map_sum id finished (SplitIsoThread_run [(normpath ''game.iso'', [1, 2, 3])] ''game.iso'')
     \<noteq> Inr [[''game.iso'']] \<and>
   map_sum id finished (SplitPkgThread_run [(normpath ''game.iso'', [1, 2, 3])] ''game.iso'')
     = Inr []"
  by (simp add: SplitIsoThread_run_def SplitPkgThread_run_def os_path_getsize_def read_file_def
      names_directory_def Let_def)

lemma UnzipRunner_loop_not_running:
  "\<not> running r \<Longrightarrow> UnzipRunner_loop stop_before k tot ex infos r = (None, r)"
  by (cases infos) (simp_all add: UnzipRunner_stop_def Let_def)

lemma UnzipRunner_loop_stop_seen:
  "stop_before k \<Longrightarrow>
   UnzipRunner_loop stop_before k tot ex (info # rest) r = (None, UnzipRunner_stop r)"
  by (simp add: UnzipRunner_stop_def)

text \<open>
  C9 (as the code has it): an archive with at least one entry and total uncompressed size
  zero makes the progress computation divide by zero right after the first entry is
  extracted, so the run raises and never emits the list of extracted files; an archive
  with no entry never reaches the division and completes, emitting its list.
\<close>

theorem unzip_zero_total_size:
  assumes "endswith (lower (zip_path r)) ''.zip''"
  shows "(running r \<and> \<not> stop_before 0 \<and> sum_list (map file_size (info # rest)) = 0 \<longrightarrow>
           UnzipRunner_run stop_before (info # rest) r
             = (Some ZeroDivisionError,
                r\<lparr>extracted_files :=
                    extracted_files r @ [os_path_join (output_path r) (filename info)]\<rparr>))
       \<and> UnzipRunner_run stop_before [] r
             = (None, r\<lparr>emitted := emitted r @ [Unzip_finished (extracted_files r)]\<rparr>)"
  using assms by (simp add: UnzipRunner_run_def Let_def)

theorem unzip_zero_total_size_witness:
  "endswith (lower (zip_path (UnzipRunner_init ''a.zip'' ''out''))) ''.zip'' \<and>
   running (UnzipRunner_init ''a.zip'' ''out'') \<and>
   sum_list (map file_size [\<lparr>filename = ''empty.txt'', file_size = 0\<rparr>]) = 0 \<and>
   UnzipRunner_run (\<lambda>k. False) [\<lparr>filename = ''empty.txt'', file_size = 0\<rparr>]
       (UnzipRunner_init ''a.zip'' ''out'')
     = (Some ZeroDivisionError,
        \<lparr>zip_path = ''a.zip'', output_path = ''out'', extracted_files = [''out/empty.txt''],
         running = True, emitted = []\<rparr>) \<and>
   UnzipRunner_run (\<lambda>k. False) [] (UnzipRunner_init ''a.zip'' ''out'')
     = (None,
        \<lparr>zip_path = ''a.zip'', output_path = ''out'', extracted_files = [],
         running = True, emitted = [Unzip_finished []]\<rparr>)"
proof -
  have h: "endswith (lower (zip_path (UnzipRunner_init ''a.zip'' ''out''))) ''.zip''"
    by (simp add: UnzipRunner_init_def lower_def char_lower_def endswith_def)
  from unzip_zero_total_size [OF h, of "\<lambda>k. False" "\<lparr>filename = ''empty.txt'', file_size = 0\<rparr>" "[]"] h
  show ?thesis
    by (simp add: UnzipRunner_init_def os_path_join_def endswith_def)
qed

theorem unzip_empty_archive_completes:
  "sum_list (map file_size []) = 0 \<and>
   UnzipRunner_run (\<lambda>k. False) [] (UnzipRunner_init ''a.zip'' ''out'')
     = (None,
        \<lparr>zip_path = ''a.zip'', output_path = ''out'', extracted_files = [],
         running = True, emitted = [Unzip_finished []]\<rparr>)"
  by (simp add: UnzipRunner_run_def UnzipRunner_init_def lower_def char_lower_def endswith_def)








lemma not_transient_overflow: "\<not> transient OverflowError"
  by (simp add: transient_def)


















text \<open>
  The downloader's run on a thread that was told to stop is its run on the thread as it
  was, flag apart: nothing in \<^verbatim>\<open>download\<close> reads \<open>dl_running\<close>.
\<close>

lemma stop_selectors:
  "disk (DownloadThread_stop t) = disk t" "dl_filename (DownloadThread_stop t) = dl_filename t"
  "range_header (DownloadThread_stop t) = range_header t"
  "requests (DownloadThread_stop t) = requests t" "sleeps (DownloadThread_stop t) = sleeps t"
  "existing_file_size (DownloadThread_stop t) = existing_file_size t"
  "total_downloaded (DownloadThread_stop t) = total_downloaded t"
  "dl_progress (DownloadThread_stop t) = dl_progress t" "retries (DownloadThread_stop t) = retries t"
  "complete_signal (DownloadThread_stop t) = complete_signal t"
  by (simp_all add: DownloadThread_stop_def)

lemma stop_updates:
  "(DownloadThread_stop t)\<lparr>disk := d\<rparr> = DownloadThread_stop (t\<lparr>disk := d\<rparr>)"
  "(DownloadThread_stop t)\<lparr>total_downloaded := n\<rparr> = DownloadThread_stop (t\<lparr>total_downloaded := n\<rparr>)"
  "(DownloadThread_stop t)\<lparr>dl_progress := p\<rparr> = DownloadThread_stop (t\<lparr>dl_progress := p\<rparr>)"
  "(DownloadThread_stop t)\<lparr>existing_file_size := n\<rparr> = DownloadThread_stop (t\<lparr>existing_file_size := n\<rparr>)"
  "(DownloadThread_stop t)\<lparr>range_header := h\<rparr> = DownloadThread_stop (t\<lparr>range_header := h\<rparr>)"
  "(DownloadThread_stop t)\<lparr>requests := q\<rparr> = DownloadThread_stop (t\<lparr>requests := q\<rparr>)"
  "(DownloadThread_stop t)\<lparr>sleeps := s\<rparr> = DownloadThread_stop (t\<lparr>sleeps := s\<rparr>)"
  "(DownloadThread_stop t)\<lparr>complete_signal := k\<rparr> = DownloadThread_stop (t\<lparr>complete_signal := k\<rparr>)"
  by (cases t; simp add: DownloadThread_stop_def)+

lemma read_body_stop:
  "read_body tot cs e (DownloadThread_stop t)
     = (case read_body tot cs e t of (r, t') \<Rightarrow> (r, DownloadThread_stop t'))"
  by (induction cs arbitrary: t) (simp_all add: Let_def stop_selectors stop_updates)

lemma attempt_stop:
  "attempt net i (DownloadThread_stop t)
     = (case attempt net i t of (r, t') \<Rightarrow> (r, DownloadThread_stop t'))"
  by (simp add: attempt_def Let_def stop_selectors stop_updates read_body_stop
      split: option.splits get_result.splits)

lemma download_from_stop:
  "download_from net n i (DownloadThread_stop t)
     = (case download_from net n i t of (r, t') \<Rightarrow> (r, DownloadThread_stop t'))"
proof (induction net n i t rule: download_from.induct)
  case (1 net n i t)
  obtain r ta where att: "attempt net i t = (r, ta)" by (cases "attempt net i t")
  then have att': "attempt net i (DownloadThread_stop t) = (r, DownloadThread_stop ta)"
    by (simp add: attempt_stop)
  show ?case
  proof (cases "n \<le> i")
    case True
    then show ?thesis by (simp add: download_from.simps)
  next
    case ni: False
    show ?thesis
    proof (cases r)
      case None
      with ni att att' show ?thesis
        by (simp add: download_from.simps [of net n i])
    next
      case (Some e)
      show ?thesis
      proof (cases "(e = ClientPayloadError \<or> e = TimeoutError) \<and> \<not> 1024 \<le> i \<and> int i \<noteq> int n - 1")
        case False
        with ni att att' Some show ?thesis
          by (auto simp: download_from.simps [of net n i] Let_def stop_selectors stop_updates)
      next
        case True
        let ?tb = "ta\<lparr>sleeps := sleeps ta @ [backoff_delay i (random net i)]\<rparr>"
        from True have te: "e = ClientPayloadError \<or> e = TimeoutError"
          and ov: "\<not> 1024 \<le> i" and nl: "int i \<noteq> int n - 1" by simp_all
        from "1.IH" [OF ni att [symmetric] Some te ov refl nl]
        have "download_from net n (i + 1) (DownloadThread_stop ?tb)
          = (case download_from net n (i + 1) ?tb of (r, t') \<Rightarrow> (r, DownloadThread_stop t'))" .
        with ni att att' Some te ov nl show ?thesis
          by (simp add: download_from.simps [of net n i] Let_def stop_selectors stop_updates)
      qed
    qed
  qed
qed

lemma DownloadThread_run_stop:
  "DownloadThread_run net (DownloadThread_stop t)
     = (case DownloadThread_run net t of (r, t') \<Rightarrow> (r, DownloadThread_stop t'))"
  by (simp add: DownloadThread_run_def download_def download_from_stop stop_selectors stop_updates
      split: prod.splits option.splits)

text \<open>
  C8 at a concrete run: the downloader never reads its \<open>running\<close> flag, so a thread whose
  \<^verbatim>\<open>stop()\<close> was called before the first chunk still writes both chunks and reports
  progress for each; the extractor, stopped the same way, extracts nothing.
\<close>

theorem download_ignores_stop:
  "dl_running (DownloadThread_stop (DownloadThread_init [] ''a.zip'' 50)) = False \<and>
   DownloadThread_run two_chunks (DownloadThread_stop (DownloadThread_init [] ''a.zip'' 50))
     = (None, \<lparr>dl_filename = ''a.zip'', retries = 50, existing_file_size = 0,
          total_downloaded = 2, dl_running = False, range_header = None,
          disk = [(normpath ''a.zip'', [1, 2])],
          requests = [None], sleeps = [], dl_progress = [(1, 2), (2, 2)],
          complete_signal = 1\<rparr>) \<and>
   UnzipRunner_run (\<lambda>k. False)
       [\<lparr>filename = ''a'', file_size = 1\<rparr>, \<lparr>filename = ''b'', file_size = 1\<rparr>]
       (UnzipRunner_stop (UnzipRunner_init ''a.zip'' ''out''))
     = (None, \<lparr>zip_path = ''a.zip'', output_path = ''out'', extracted_files = [],
          running = False, emitted = [Unzip_finished []]\<rparr>)"
  by (simp add: DownloadThread_run_def download_def download_from.simps attempt_def
      two_chunks_def DownloadThread_stop_def DownloadThread_init_def read_file_def
      names_directory_def append_file_def write_file_def normpath_def path_parts_def
      UnzipRunner_run_def UnzipRunner_stop_def UnzipRunner_init_def lower_def char_lower_def
      endswith_def)

lemma acks_append: "acks (xs @ ys) = acks xs @ acks ys"
  by (induction xs rule: acks.induct) simp_all

lemma operation_body_typed:
  "operation ''type'' = Some ty \<Longrightarrow> operation_body os operation s = (r, evs, s') \<Longrightarrow>
     acks evs = (if r = None then [(ty, None)] else []) \<and> Finished_signal \<notin> set evs"
  by (auto simp: operation_body_def split: if_splits option.splits prod.splits)

lemma run_operation_typed:
  assumes "operation ''type'' = Some ty"
  shows "\<exists>evs s'. run_operation os operation s = (None, evs, s') \<and>
           acks evs = [(ty, fst (operation_body os operation s))] \<and>
           Finished_signal \<notin> set evs \<and> s' = snd (snd (operation_body os operation s))"
proof -
  obtain r evs s' where b: "operation_body os operation s = (r, evs, s')"
    by (cases "operation_body os operation s")
  from operation_body_typed [where operation = operation and ty = ty, OF assms b]
  have a: "acks evs = (if r = None then [(ty, None)] else [])" and f: "Finished_signal \<notin> set evs"
    by simp_all
  show ?thesis
  proof (cases r)
    case None
    with b a f show ?thesis by (simp add: run_operation_def)
  next
    case (Some e)
    with b a f assms show ?thesis by (simp add: run_operation_def acks_append)
  qed
qed

lemma FileOperationsThread_run_typed:
  "list_all (\<lambda>operation. operation ''type'' \<noteq> None) ops \<Longrightarrow>
     \<exists>evs s'. FileOperationsThread_run os ops s = (None, evs @ [Finished_signal], s') \<and>
       Finished_signal \<notin> set evs \<and>
       map fst (acks evs) = map (\<lambda>operation. the (operation ''type'')) ops"
proof (induction ops arbitrary: s)
  case Nil
  then show ?case by simp
next
  case (Cons operation ops)
  from Cons.prems obtain ty where ty: "operation ''type'' = Some ty"
    and rest: "list_all (\<lambda>operation. operation ''type'' \<noteq> None) ops" by auto
  from run_operation_typed [where operation = operation and ty = ty and os = os and s = s, OF ty] obtain evs s1 where
    one: "run_operation os operation s = (None, evs, s1)"
      "acks evs = [(ty, fst (operation_body os operation s))]"
      "Finished_signal \<notin> set evs" by blast
  from Cons.IH [OF rest, of s1] obtain evs' s' where
    more: "FileOperationsThread_run os ops s1 = (None, evs' @ [Finished_signal], s')"
      "Finished_signal \<notin> set evs'"
      "map fst (acks evs') = map (\<lambda>operation. the (operation ''type'')) ops" by blast
  from one more ty have
    "FileOperationsThread_run os (operation # ops) s = (None, (evs @ evs') @ [Finished_signal], s')"
    "Finished_signal \<notin> set (evs @ evs')"
    "map fst (acks (evs @ evs')) = map (\<lambda>operation. the (operation ''type'')) (operation # ops)"
    by (simp_all add: acks_append)
  then show ?case by blast
qed

text \<open>One turn of the loop on the dict of an operation is the operation's action.\<close>

lemma operation_body_action:
  "\<exists>evs. operation_body os (op_dict sp) s = (fst (action os sp s), evs, snd (action os sp s)) \<and>
         acks evs = (if fst (action os sp s) = None then [(op_type sp, None)] else []) \<and>
         Finished_signal \<notin> set evs"
proof (cases sp)
  case (Rename src dst)
  then show ?thesis
    by (cases "os_rename_call os src dst s"; cases "fst (os_rename_call os src dst s)")
      (simp_all add: operation_body_def)
next
  case (Move src dst)
  then show ?thesis
    by (cases "shutil_move_call os src dst s"; cases "fst (shutil_move_call os src dst s)")
      (simp_all add: operation_body_def)
next
  case (Remove src)
  then show ?thesis
    by (cases "os_path_isdir_call os src s"; cases "shutil_rmtree_call os src s";
        cases "fst (shutil_rmtree_call os src s)"; cases "os_remove_call os src s";
        cases "fst (os_remove_call os src s)")
      (simp_all add: operation_body_def)
qed

lemma op_dict_type: "op_dict sp ''type'' = Some (op_type sp)"
  by (cases sp) simp_all

lemma run_operation_action:
  "\<exists>evs. run_operation os (op_dict sp) s = (None, evs, snd (action os sp s)) \<and>
         acks evs = [(op_type sp, fst (action os sp s))] \<and> Finished_signal \<notin> set evs"
proof -
  from operation_body_action [of os sp s] obtain evs where
    b: "operation_body os (op_dict sp) s = (fst (action os sp s), evs, snd (action os sp s))"
    and a: "acks evs = (if fst (action os sp s) = None then [(op_type sp, None)] else [])"
    and f: "Finished_signal \<notin> set evs" by blast
  show ?thesis
  proof (cases "fst (action os sp s)")
    case None
    with b a f show ?thesis by (simp add: run_operation_def)
  next
    case (Some e)
    with b a f show ?thesis by (simp add: run_operation_def op_dict_type acks_append)
  qed
qed

lemma FileOperationsThread_run_actions:
  "\<exists>evs. FileOperationsThread_run os (map op_dict sps) s
           = (None, evs @ [Finished_signal], storage_after os sps s) \<and>
         Finished_signal \<notin> set evs \<and> acks evs = reports os sps s"
proof (induction sps arbitrary: s)
  case Nil
  then show ?case by simp
next
  case (Cons sp sps)
  from run_operation_action [of os sp s] obtain evs where
    one: "run_operation os (op_dict sp) s = (None, evs, snd (action os sp s))"
      "acks evs = [(op_type sp, fst (action os sp s))]" "Finished_signal \<notin> set evs" by blast
  from Cons.IH [of "snd (action os sp s)"] obtain evs' where
    more: "FileOperationsThread_run os (map op_dict sps) (snd (action os sp s))
             = (None, evs' @ [Finished_signal], storage_after os sps (snd (action os sp s)))"
      "Finished_signal \<notin> set evs'" "acks evs' = reports os sps (snd (action os sp s))" by blast
  from one more have
    "FileOperationsThread_run os (map op_dict (sp # sps)) s
       = (None, (evs @ evs') @ [Finished_signal], storage_after os (sp # sps) s)"
    "Finished_signal \<notin> set (evs @ evs')"
    "acks (evs @ evs') = reports os (sp # sps) s"
    by (simp_all add: acks_append)
  then show ?case by blast
qed

text \<open>
  C6: a list of operations that each carry a type is attempted in list order and the run
  always reaches \<^verbatim>\<open>finished_signal\<close>, emitted once, at the end; every operation gets
  exactly one acknowledgment, in list order, whatever its type. On the operations of the
  specification the run performs the action of each, in list order, on the storage the
  one before left: it leaves the storage these actions leave, and it acknowledges each
  operation with \<^verbatim>\<open>Performed\<close> when its action raised nothing and with
  \<^verbatim>\<open>Error during\<close> and the exception when it raised, after which the next operation
  still runs.
\<close>

theorem executor_best_effort:
  "(list_all (\<lambda>operation. operation ''type'' \<noteq> None) ops \<longrightarrow>
      (\<exists>evs s'. FileOperationsThread_run os ops s = (None, evs @ [Finished_signal], s') \<and>
         Finished_signal \<notin> set evs \<and>
         map fst (acks evs) = map (\<lambda>operation. the (operation ''type'')) ops)) \<and>
   (\<exists>evs. FileOperationsThread_run os (map op_dict sps) s
            = (None, evs @ [Finished_signal], storage_after os sps s) \<and>
          Finished_signal \<notin> set evs \<and> acks evs = reports os sps s)"
  using FileOperationsThread_run_typed [of ops os s] FileOperationsThread_run_actions [of os sps s]
  by blast

lemma norm_a: "normpath ''a'' = (False, [''a''])" and norm_b: "normpath ''b'' = (False, [''b''])"
  and norm_c: "normpath ''c'' = (False, [''c''])" and norm_x: "normpath ''x'' = (False, [''x''])"
  and norm_missing: "normpath ''missing'' = (False, [''missing''])"
  by (simp_all add: normpath_def path_parts_def)

theorem executor_best_effort_witness:
  "list_all (\<lambda>operation. operation ''type'' \<noteq> None)
     (map op_dict [Move ''a'' ''b'', Rename ''missing'' ''x'', Remove ''c'']) \<and>
   FileOperationsThread_run flat_os
     (map op_dict [Move ''a'' ''b'', Rename ''missing'' ''x'', Remove ''c''])
     [(normpath ''a'', [1]), (normpath ''c'', [2])]
   = (None,
      [Announce ''Moving a to b'', Performed ''move'',
       Announce ''Renaming missing to x'',
       Error_during ''rename'' (FileNotFoundError ''missing'' (Some ''x'')),
       Announce ''Removing c'', Performed ''remove''] @ [Finished_signal],
      [(normpath ''b'', [1])]) \<and>
   storage_after flat_os [Move ''a'' ''b'', Rename ''missing'' ''x'', Remove ''c'']
     [(normpath ''a'', [1]), (normpath ''c'', [2])]
   = [(normpath ''b'', [1])] \<and>
   reports flat_os [Move ''a'' ''b'', Rename ''missing'' ''x'', Remove ''c'']
     [(normpath ''a'', [1]), (normpath ''c'', [2])]
   = [(''move'', None), (''rename'', Some (FileNotFoundError ''missing'' (Some ''x''))),
      (''remove'', None)]"
proof -
  let ?sps = "[Move ''a'' ''b'', Rename ''missing'' ''x'', Remove ''c'']"
  let ?fs = "[(normpath ''a'', [1]), (normpath ''c'', [2])] :: filesystem"
  have h: "list_all (\<lambda>operation. operation ''type'' \<noteq> None) (map op_dict ?sps)" by simp
  have ev: "FileOperationsThread_run flat_os (map op_dict ?sps) ?fs
   = (None,
      [Announce ''Moving a to b'', Performed ''move'',
       Announce ''Renaming missing to x'',
       Error_during ''rename'' (FileNotFoundError ''missing'' (Some ''x'')),
       Announce ''Removing c'', Performed ''remove''] @ [Finished_signal],
      [(normpath ''b'', [1])])"
    by (simp add: run_operation_def operation_body_def flat_os_def flat_rename_def flat_move_def
        flat_remove_def os_remove_def read_file_def names_directory_def write_file_def
        norm_a norm_b norm_c norm_x norm_missing)
  from executor_best_effort [of "map op_dict ?sps" flat_os ?fs ?sps] h ev
  have "storage_after flat_os ?sps ?fs = [(normpath ''b'', [1])]"
    "reports flat_os ?sps ?fs
       = [(''move'', None), (''rename'', Some (FileNotFoundError ''missing'' (Some ''x''))),
          (''remove'', None)]"
    by auto
  with h ev show ?thesis by blast
qed




text \<open>
  \<^verbatim>\<open>add_to_queue\<close> does not write \<^verbatim>\<open>queue.txt\<close>, unlike its sibling
  \<^verbatim>\<open>remove_from_queue\<close>.
\<close>

lemma add_to_queue_not_saved: "queue_txt (add_to_queue g selected_items idx) = queue_txt g"
proof -
  have "queue_txt (fold (\<lambda>item g.
             if item_column item = 0 then
               (let duplicate =
                      list_ex (\<lambda>queue_item. item_text queue_item = full_filename item \<and>
                                             item_data queue_item = idx)
                        (queue_list g)
                in if \<not> duplicate
                   then g\<lparr>queue_list := queue_list g @
                            [\<lparr>item_text = full_filename item, item_data = idx\<rparr>]\<rparr>
                   else g)
             else g) selected_items g) = queue_txt g"
    by (induction selected_items arbitrary: g) (simp_all add: Let_def)
  then show ?thesis by (simp add: add_to_queue_def)
qed




text \<open>
  C1 at concrete runs of the PS3 pipeline. When the decryption tool exits with code 1,
  \<^verbatim>\<open>CommandRunner.run\<close> raises and never emits its finished signal, so nothing takes the
  item off the queue and the next item is never dispatched. When the tool exits with 0
  but left no output, the sibling path \<^verbatim>\<open>decryption_finished\<close> does advance the queue.
  When the key file is absent and neither decryption nor key retention is requested,
  \<^verbatim>\<open>handle_ps3_files\<close> starts nothing and the queue stays where it is.
\<close>

theorem tool_failure_halts_queue:
  "ps3_item_step ps3_system (decrypting 1 False) [''processing/game.iso''] ''game'' two_in_work
     = (Unhandled (CalledProcessError 1
          [''ps3dec'', ''d'', ''key'', ''0123456789ABCDEF0123456789ABCDEF'',
           ''processing/game.iso'']),
        two_in_work, Idle) \<and>
   ps3_item_step ps3_system (decrypting 0 False) [''processing/game.iso''] ''game'' two_in_work
     = (Next_item,
        \<lparr>queue_list = [\<lparr>item_text = ''other.zip'', item_data = 0\<rparr>],
         queue_txt = None, processed_items = 2, total_items = 2, clickables_enabled = False\<rparr>,
        Start Ps3_iso ''other.zip'' ''2/2'') \<and>
   ps3_item_step ps3_system
       ((decrypting 0 False)\<lparr>decrypt_checked := False, dkey_isfile_before := False\<rparr>)
       [''processing/game.iso''] ''game'' two_in_work
     = (Stalled, two_in_work, Idle)"
  by (simp add: ps3_item_step_def handle_ps3_files_def after_dkey_download_def
      decrypt_ps3_iso_def CommandRunner_run_def decryption_finished_def decrypting_def
      endswith_def os_path_join_def two_in_work_def ps3_system_def process_next_item.simps
      str_nat.simps digit_char_def)









lemma takeWhile_rev_less:
  assumes "c \<in> set s"
  shows "length (takeWhile (\<lambda>x. x \<noteq> c) (rev s)) < length s"
proof -
  have "length (takeWhile (\<lambda>x. x \<noteq> c) (rev s)) \<le> length (rev s)"
    by (rule length_takeWhile_le)
  moreover have "length (takeWhile (\<lambda>x. x \<noteq> c) (rev s)) \<noteq> length (rev s)"
  proof
    assume "length (takeWhile (\<lambda>x. x \<noteq> c) (rev s)) = length (rev s)"
    then have "takeWhile (\<lambda>x. x \<noteq> c) (rev s) = rev s"
      by (metis takeWhile_eq_take take_all order_refl)
    then have "\<forall>x\<in>set (rev s). x \<noteq> c" by (metis set_takeWhileD)
    with assms show False by auto
  qed
  ultimately show ?thesis by simp
qed

lemma rfind_nonneg: "c \<in> set s \<Longrightarrow> 0 \<le> rfind c s"
  using takeWhile_rev_less [of c s] by (simp add: rfind_def)



















end
